theory Spec2Isabelle
  imports Main
begin

section \<open>Python values, errors and strings\<close>

text \<open>
  The notebook's helper \<^verbatim>\<open>load_targets_from_file\<close> is dynamically typed: any Python
  object can be passed for any argument. The arguments are therefore modelled as values of
  \<open>pyval\<close>; \<open>PyInt\<close> and \<open>PyNone\<close> stand for the objects that are not \<^verbatim>\<open>str\<close>.
  A Python \<^verbatim>\<open>str\<close> is modelled as a \<open>string\<close> in which every \<open>char\<close> is one code
  point below 256.
\<close>

datatype pyval = PyStr string | PyInt int | PyNone

text \<open>What \<^verbatim>\<open>pd.read_csv\<close> can raise; the library is not part of the repository.\<close>

datatype io_error = FileNotFoundError | EmptyDataError | ParserError

datatype error =
    AssertionError string
  | AttributeError string
  | KeyError "string list"
  | IndexError
  | ValueError string
  | ReadError io_error

text \<open>\<^verbatim>\<open>str.isspace\<close> on the code points below 256: TAB..CR, FS..US, space, NEL, NBSP.\<close>

definition isspace :: "char \<Rightarrow> bool" where
  "isspace c =
     (let n = (of_char c :: nat)
      in (9 \<le> n \<and> n \<le> 13) \<or> (28 \<le> n \<and> n \<le> 32) \<or> n = 133 \<or> n = 160)"

text \<open>\<^verbatim>\<open>str.lower\<close> on one code point below 256: A..Z and the Latin-1 capitals.\<close>

definition lower_char :: "char \<Rightarrow> char" where
  "lower_char c =
     (let n = (of_char c :: nat)
      in if (65 \<le> n \<and> n \<le> 90) \<or> (192 \<le> n \<and> n \<le> 214) \<or> (216 \<le> n \<and> n \<le> 222)
         then char_of (n + 32) else c)"

definition lower :: "string \<Rightarrow> string" where
  "lower s = map lower_char s"

text \<open>\<^verbatim>\<open>str.strip()\<close>: drop the leading and the trailing white space.\<close>

definition strip :: "string \<Rightarrow> string" where
  "strip s = rev (dropWhile isspace (rev (dropWhile isspace s)))"

text \<open>\<^verbatim>\<open>s.endswith(t)\<close>.\<close>

definition endswith :: "string \<Rightarrow> string \<Rightarrow> bool" where
  "endswith s t = (length t \<le> length s \<and> drop (length s - length t) s = t)"

text \<open>Sequencing of steps that may raise.\<close>

definition bind_err :: "error + 'a \<Rightarrow> ('a \<Rightarrow> error + 'b) \<Rightarrow> error + 'b" where
  "bind_err m f = (case m of Inl e \<Rightarrow> Inl e | Inr x \<Rightarrow> f x)"

section \<open>The table read from the file\<close>

text \<open>
  A pandas \<^verbatim>\<open>DataFrame\<close>: the header names in file order and the data rows in file order.
  The cell type \<open>'v\<close> is left open: the loader never inspects a cell.
  A \<^verbatim>\<open>DataFrame\<close> is rectangular: every row has one cell per header name, so a cell
  \<open>r ! i\<close> with \<open>i\<close> a position of the header is read in range.
\<close>

record 'v dataframe =
  columns :: "string list"
  rows :: "'v list list"

text \<open>\<^verbatim>\<open>df.rename(columns=f, inplace=True)\<close>.\<close>

definition rename_columns :: "(string \<Rightarrow> string) \<Rightarrow> 'v dataframe \<Rightarrow> 'v dataframe" where
  "rename_columns f df = df\<lparr>columns := map f (columns df)\<rparr>"

text \<open>The positions at which a label occurs in the header (labels may repeat).\<close>

definition positions :: "string \<Rightarrow> string list \<Rightarrow> nat list" where
  "positions n cs = filter (\<lambda>i. cs ! i = n) [0..<length cs]"

definition take_columns :: "nat list \<Rightarrow> 'v dataframe \<Rightarrow> 'v dataframe" where
  "take_columns js df =
     \<lparr>columns = map (\<lambda>i. columns df ! i) js,
      rows = map (\<lambda>r. map (\<lambda>i. r ! i) js) (rows df)\<rparr>"

text \<open>
  \<^verbatim>\<open>df[label]\<close>: a \<^verbatim>\<open>Series\<close> when the label occurs once, a \<^verbatim>\<open>DataFrame\<close> of all the
  columns carrying it when it repeats, \<^verbatim>\<open>KeyError\<close> when it is absent.
\<close>

datatype 'v pdobj = Series "'v list" | Frame "'v dataframe"

definition getitem :: "'v dataframe \<Rightarrow> string \<Rightarrow> error + 'v pdobj" where
  "getitem df n =
     (case positions n (columns df) of
        [] \<Rightarrow> Inl (KeyError [n])
      | [i] \<Rightarrow> Inr (Series (map (\<lambda>r. r ! i) (rows df)))
      | i # j # js \<Rightarrow> Inr (Frame (take_columns (i # j # js) df)))"

text \<open>\<^verbatim>\<open>.to_list()\<close> exists on a \<^verbatim>\<open>Series\<close> only.\<close>

definition to_list :: "'v pdobj \<Rightarrow> error + 'v list" where
  "to_list obj =
     (case obj of
        Series vs \<Rightarrow> Inr vs
      | Frame _ \<Rightarrow> Inl (AttributeError ''to_list''))"

text \<open>
  \<^verbatim>\<open>df[labels]\<close> for a list (or \<^verbatim>\<open>Index\<close>) of labels: for each label in turn, all the
  columns carrying it; \<^verbatim>\<open>KeyError\<close> when a label is absent.
\<close>

definition getitem_list :: "'v dataframe \<Rightarrow> string list \<Rightarrow> error + 'v dataframe" where
  "getitem_list df ns =
     (case filter (\<lambda>n. n \<notin> set (columns df)) ns of
        [] \<Rightarrow> Inr (take_columns (concat (map (\<lambda>n. positions n (columns df)) ns)) df)
      | m # ms \<Rightarrow> Inl (KeyError (m # ms)))"

text \<open>
  \<^verbatim>\<open>.to_records(index=False).tolist()\<close>: one tuple per row, in row order; the record
  array cannot be built when two fields carry the same name.
\<close>

definition to_records_tolist :: "'v dataframe \<Rightarrow> error + 'v list list" where
  "to_records_tolist df =
     (if distinct (columns df) then Inr (rows df)
      else Inl (ValueError ''duplicate field name''))"

text \<open>\<^verbatim>\<open>df.columns[0]\<close> and \<^verbatim>\<open>df.columns[0:2]\<close>.\<close>

definition first_column :: "'v dataframe \<Rightarrow> error + string" where
  "first_column df = (case columns df of [] \<Rightarrow> Inl IndexError | c # _ \<Rightarrow> Inr c)"

definition first_two_columns :: "'v dataframe \<Rightarrow> string list" where
  "first_two_columns df = take 2 (columns df)"

section \<open>Storage\<close>

text \<open>
  \<^verbatim>\<open>pd.read_csv\<close> is the only access to storage. What it returns for a path is a
  parameter: \<open>contents\<close> lists, per path, the parsed table or the exception of the
  parser; a path that is not listed does not exist. Every call is logged in \<open>opened\<close>.
\<close>

record 'v filesystem =
  contents :: "(string \<times> (io_error + 'v dataframe)) list"
  opened :: "string list"

definition read_csv :: "string \<Rightarrow> 'v filesystem \<Rightarrow> (io_error + 'v dataframe) \<times> 'v filesystem" where
  "read_csv fname fs =
     (case map_of (contents fs) fname of
        None \<Rightarrow> Inl FileNotFoundError
      | Some r \<Rightarrow> r,
      fs\<lparr>opened := opened fs @ [fname]\<rparr>)"

section \<open>The loader\<close>

text \<open>The value returned: a list of names, a list of coordinate tuples, or \<^verbatim>\<open>None\<close>.\<close>

datatype 'v targets = Names "'v list" | Coords "'v list list" | ReturnsNone

text \<open>The four assertion failures of the function, with the messages of the source.\<close>

definition filename_not_str :: error where
  "filename_not_str = AssertionError ''filename must be a string''"

definition bad_load_by :: error where
  "bad_load_by = AssertionError ''load_by can only be either \"name\" or \"coord\"''"

definition not_csv :: error where
  "not_csv = AssertionError ''filename must be a valid csv file''"

definition missing_column :: "string \<Rightarrow> error" where
  "missing_column c = AssertionError (''csv file does not contain column '' @ c)"

text \<open>The normalisation \<^verbatim>\<open>x.strip().lower()\<close> applied to headers and overrides.\<close>

abbreviation normalize :: "string \<Rightarrow> string" where
  "normalize x \<equiv> lower (strip x)"

text \<open>The branch \<^verbatim>\<open>if load_by == 'name'\<close>.\<close>

definition load_names :: "'v dataframe \<Rightarrow> pyval \<Rightarrow> error + 'v targets" where
  "load_names df namecol =
     (case namecol of
        PyStr nc0 \<Rightarrow>
          (let nc = lower (strip nc0)
           in if nc \<noteq> [] \<and> nc \<notin> set (columns df) then Inl (missing_column nc)
              else bind_err
                     (if nc \<noteq> [] then getitem df nc
                      else bind_err (first_column df) (getitem df))
                     (\<lambda>targets. bind_err (to_list targets) (\<lambda>vs. Inr (Names vs))))
      | _ \<Rightarrow> Inl (AttributeError ''strip''))"

text \<open>The branch \<^verbatim>\<open>if load_by == 'coord'\<close>.\<close>

definition load_coords :: "'v dataframe \<Rightarrow> pyval \<Rightarrow> pyval \<Rightarrow> error + 'v targets" where
  "load_coords df racol deccol =
     (case racol of
        PyStr ra0 \<Rightarrow>
          (case deccol of
             PyStr dec0 \<Rightarrow>
               (let ra = lower (strip ra0); dec = lower (strip dec0)
                in if ra \<noteq> [] \<and> ra \<notin> set (columns df) then Inl (missing_column ra)
                   else if dec \<noteq> [] \<and> dec \<notin> set (columns df) then Inl (missing_column dec)
                   else bind_err
                          (if ra \<noteq> [] \<and> dec \<noteq> [] then getitem_list df [ra, dec]
                           else getitem_list df (first_two_columns df))
                          (\<lambda>coord. bind_err (to_records_tolist coord) (\<lambda>ts. Inr (Coords ts))))
           | _ \<Rightarrow> Inl (AttributeError ''strip''))
      | _ \<Rightarrow> Inl (AttributeError ''strip''))"

text \<open>
  \<^verbatim>\<open>load_targets_from_file(filename, load_by, namecol, racol, deccol)\<close>, with the storage
  passed in and returned.
\<close>

definition load_targets_from_file ::
  "'v filesystem \<Rightarrow> pyval \<Rightarrow> pyval \<Rightarrow> pyval \<Rightarrow> pyval \<Rightarrow> pyval
     \<Rightarrow> (error + 'v targets) \<times> 'v filesystem" where
  "load_targets_from_file fs filename load_by namecol racol deccol =
     (case filename of
        PyStr fname \<Rightarrow>
          if load_by \<notin> set [PyStr ''name'', PyStr ''coord'']
          then (Inl bad_load_by, fs)
          else if \<not> endswith fname ''.csv''
          then (Inl not_csv, fs)
          else
            (case read_csv fname fs of
               (Inl e, fs') \<Rightarrow> (Inl (ReadError e), fs')
             | (Inr df0, fs') \<Rightarrow>
                 (let df = rename_columns (\<lambda>x. lower (strip x)) df0
                  in if load_by = PyStr ''name'' then (load_names df namecol, fs')
                     else if load_by = PyStr ''coord'' then (load_coords df racol deccol, fs')
                     else (Inr ReturnsNone, fs')))
      | _ \<Rightarrow> (Inl filename_not_str, fs))"

text \<open>
  A call that leaves keyword arguments out: the \<^verbatim>\<open>def\<close> line supplies
  \<^verbatim>\<open>load_by='name', namecol='target_name', racol='ra', deccol='dec'\<close>.
\<close>

definition load_targets_call ::
  "'v filesystem \<Rightarrow> pyval \<Rightarrow> pyval option \<Rightarrow> pyval option \<Rightarrow> pyval option \<Rightarrow> pyval option
     \<Rightarrow> (error + 'v targets) \<times> 'v filesystem" where
  "load_targets_call fs filename load_by namecol racol deccol =
     load_targets_from_file fs filename
       (case load_by of None \<Rightarrow> PyStr ''name'' | Some v \<Rightarrow> v)
       (case namecol of None \<Rightarrow> PyStr ''target_name'' | Some v \<Rightarrow> v)
       (case racol of None \<Rightarrow> PyStr ''ra'' | Some v \<Rightarrow> v)
       (case deccol of None \<Rightarrow> PyStr ''dec'' | Some v \<Rightarrow> v)"

section \<open>The target-count dictionary\<close>

text \<open>
  A Python \<^verbatim>\<open>dict\<close> keeps its keys in insertion order; storing under a key that is
  present replaces the value and leaves the key where it is.
\<close>

fun dict_setitem :: "'k \<Rightarrow> 'c \<Rightarrow> ('k \<times> 'c) list \<Rightarrow> ('k \<times> 'c) list" where
  "dict_setitem k v [] = [(k, v)]"
| "dict_setitem k v ((k', v') # d) =
     (if k' = k then (k', v) # d else (k', v') # dict_setitem k v d)"

text \<open>\<^verbatim>\<open>targets = {name: 0 for name in target_names}\<close>.\<close>

definition targets_init :: "'k list \<Rightarrow> ('k \<times> int) list" where
  "targets_init names = fold (\<lambda>name d. dict_setitem name 0 d) names []"

text \<open>
  \<^verbatim>\<open>for t, n in targets.items(): targets[t] = Observations.query_criteria_count(...)\<close>.
  The archive's answer is a parameter; an exception of the query ends the loop.
\<close>

fun count_loop :: "('k \<Rightarrow> error + int) \<Rightarrow> 'k list \<Rightarrow> ('k \<times> int) list \<Rightarrow> error + ('k \<times> int) list" where
  "count_loop query [] d = Inr d"
| "count_loop query (t # ts) d =
     (case query t of
        Inl e \<Rightarrow> Inl e
      | Inr c \<Rightarrow> count_loop query ts (dict_setitem t c d))"

definition count_targets :: "('k \<Rightarrow> error + int) \<Rightarrow> 'k list \<Rightarrow> error + ('k \<times> int) list" where
  "count_targets query names =
     (let targets = targets_init names in count_loop query (map fst targets) targets)"

section \<open>Vocabulary of the properties\<close>

text \<open>
  The position of the first column carrying a label (the header's length when there is
  none).
\<close>

definition column_index :: "string \<Rightarrow> string list \<Rightarrow> nat" where
  "column_index c cs = length (takeWhile (\<lambda>x. x \<noteq> c) cs)"

text \<open>
  Two names differ only in letter case and surrounding white space: the letters correspond
  one to one up to case (\<open>recase\<close>), white space may be put around a name (\<open>pad\<close>),
  and the relation is symmetric.
\<close>

inductive case_ws_variant :: "string \<Rightarrow> string \<Rightarrow> bool" where
  recase: "list_all2 (\<lambda>c d. lower_char c = lower_char d) s t \<Longrightarrow> case_ws_variant s t"
| pad: "list_all isspace l \<Longrightarrow> list_all isspace r \<Longrightarrow> case_ws_variant s t
          \<Longrightarrow> case_ws_variant (l @ s @ r) t"
| sym: "case_ws_variant s t \<Longrightarrow> case_ws_variant t s"

section \<open>The notebook's example file\<close>

text \<open>
  The file \<^verbatim>\<open>targets.csv\<close> shown in the notebook, as \<^verbatim>\<open>pd.read_csv\<close> hands it over:
  the header names keep the blank after each comma. The cells are kept as text.
\<close>

definition targets_csv :: "string dataframe" where
  "targets_csv =
     \<lparr>columns = [''target_name'', '' RA'', '' DEC''],
      rows = [[''CX Tau'', ''67.910'', ''18.2336''],
              [''Fomalhaut'', ''67.910'', ''18.2336''],
              [''HL Tauri'', ''67.910'', ''18.2336''],
              [''M 8'', ''67.910'', ''18.2336''],
              [''HD 12345'', ''67.910'', ''18.2336'']]\<rparr>"

definition notebook_storage :: "string filesystem" where
  "notebook_storage = \<lparr>contents = [(''targets.csv'', Inr targets_csv)], opened = []\<rparr>"

text \<open>A file whose name column is called \<^verbatim>\<open>star\<close>.\<close>

definition stars_storage :: "string filesystem" where
  "stars_storage =
     \<lparr>contents = [(''stars.csv'',
                   Inr \<lparr>columns = [''star'', ''ra'', ''dec''],
                        rows = [[''M 8'', ''270.9'', ''-24.4'']]\<rparr>)],
      opened = []\<rparr>"

text \<open>The same table under a header written in another case and with other blanks.\<close>

definition recased_storage :: "string filesystem" where
  "recased_storage =
     \<lparr>contents = [(''targets.csv'',
                   Inr (targets_csv\<lparr>columns := [''Target_Name'', ''ra'', '' Dec'']\<rparr>))],
      opened = []\<rparr>"

section \<open>Facts about the model\<close>

subsection \<open>The checks at the head of the loader\<close>

lemma load_not_str:
  "\<forall>f. filename \<noteq> PyStr f \<Longrightarrow>
   load_targets_from_file fs filename load_by n r d = (Inl filename_not_str, fs)"
  by (cases filename) (simp_all add: load_targets_from_file_def)

lemma load_bad_mode:
  "load_by \<noteq> PyStr ''name'' \<Longrightarrow> load_by \<noteq> PyStr ''coord'' \<Longrightarrow>
   load_targets_from_file fs (PyStr f) load_by n r d = (Inl bad_load_by, fs)"
  by (simp add: load_targets_from_file_def)

lemma load_not_csv:
  "load_by = PyStr ''name'' \<or> load_by = PyStr ''coord'' \<Longrightarrow> \<not> endswith f ''.csv'' \<Longrightarrow>
   load_targets_from_file fs (PyStr f) load_by n r d = (Inl not_csv, fs)"
  by (auto simp add: load_targets_from_file_def)

lemma load_read_error:
  "load_by = PyStr ''name'' \<or> load_by = PyStr ''coord'' \<Longrightarrow> endswith f ''.csv'' \<Longrightarrow>
   fst (read_csv f fs) = Inl e \<Longrightarrow>
   load_targets_from_file fs (PyStr f) load_by n r d = (Inl (ReadError e), snd (read_csv f fs))"
  by (cases "read_csv f fs") (auto simp add: load_targets_from_file_def)

lemma load_name_read:
  "endswith f ''.csv'' \<Longrightarrow> fst (read_csv f fs) = Inr df0 \<Longrightarrow>
   load_targets_from_file fs (PyStr f) (PyStr ''name'') n r d
     = (load_names (rename_columns normalize df0) n, snd (read_csv f fs))"
  by (cases "read_csv f fs") (simp add: load_targets_from_file_def)

lemma load_coord_read:
  "endswith f ''.csv'' \<Longrightarrow> fst (read_csv f fs) = Inr df0 \<Longrightarrow>
   load_targets_from_file fs (PyStr f) (PyStr ''coord'') n r d
     = (load_coords (rename_columns normalize df0) r d, snd (read_csv f fs))"
  by (cases "read_csv f fs") (simp add: load_targets_from_file_def)

lemma bind_err_Inl:
  "bind_err m f = Inl e \<longleftrightarrow> m = Inl e \<or> (\<exists>x. m = Inr x \<and> f x = Inl e)"
  by (cases m) (simp_all add: bind_err_def)

lemma getitem_not_assertion: "getitem df c \<noteq> Inl (AssertionError m)"
  by (simp add: getitem_def split: list.splits)

lemma to_list_not_assertion: "to_list x \<noteq> Inl (AssertionError m)"
  by (simp add: to_list_def split: pdobj.splits)

lemma first_column_not_assertion: "first_column df \<noteq> Inl (AssertionError m)"
  by (simp add: first_column_def split: list.splits)

lemma getitem_list_not_assertion: "getitem_list df cs \<noteq> Inl (AssertionError m)"
  by (simp add: getitem_list_def split: list.splits)

lemma to_records_not_assertion: "to_records_tolist df \<noteq> Inl (AssertionError m)"
  by (simp add: to_records_tolist_def)

lemma load_names_assertion:
  "load_names df n = Inl (AssertionError m) \<Longrightarrow> \<exists>c. missing_column c = AssertionError m"
  by (cases n)
     (auto simp add: load_names_def Let_def bind_err_Inl getitem_not_assertion
        to_list_not_assertion first_column_not_assertion split: if_splits)

lemma load_coords_assertion:
  "load_coords df r d = Inl (AssertionError m) \<Longrightarrow> \<exists>c. missing_column c = AssertionError m"
  by (cases r; cases d)
     (auto simp add: load_coords_def Let_def bind_err_Inl getitem_list_not_assertion
        to_records_not_assertion split: if_splits)

lemma missing_column_neq:
  "missing_column c \<noteq> bad_load_by" "missing_column c \<noteq> not_csv" "missing_column c \<noteq> filename_not_str"
  by (simp_all add: missing_column_def bad_load_by_def not_csv_def filename_not_str_def)

lemma fixed_errors_neq:
  "filename_not_str \<noteq> bad_load_by" "not_csv \<noteq> bad_load_by" "filename_not_str \<noteq> not_csv"
  by (simp_all add: bad_load_by_def not_csv_def filename_not_str_def)

lemma read_error_neq:
  "ReadError e \<noteq> bad_load_by" "ReadError e \<noteq> not_csv" "ReadError e \<noteq> filename_not_str"
  by (simp_all add: bad_load_by_def not_csv_def filename_not_str_def)

lemma load_names_not_fixed:
  "load_names df n \<noteq> Inl bad_load_by" "load_names df n \<noteq> Inl not_csv"
  "load_names df n \<noteq> Inl filename_not_str"
  using load_names_assertion [of df n] missing_column_neq
  by (auto simp add: bad_load_by_def not_csv_def filename_not_str_def)

lemma load_coords_not_fixed:
  "load_coords df r d \<noteq> Inl bad_load_by" "load_coords df r d \<noteq> Inl not_csv"
  "load_coords df r d \<noteq> Inl filename_not_str"
  using load_coords_assertion [of df r d] missing_column_neq
  by (auto simp add: bad_load_by_def not_csv_def filename_not_str_def)

lemma load_valid_cases:
  assumes "load_by = PyStr ''name'' \<or> load_by = PyStr ''coord''" and "endswith f ''.csv''"
  shows "(\<exists>e. load_targets_from_file fs (PyStr f) load_by n r d = (Inl (ReadError e), snd (read_csv f fs)))
       \<or> (\<exists>df. load_targets_from_file fs (PyStr f) load_by n r d = (load_names df n, snd (read_csv f fs)))
       \<or> (\<exists>df. load_targets_from_file fs (PyStr f) load_by n r d = (load_coords df r d, snd (read_csv f fs)))"
proof (cases "fst (read_csv f fs)")
  case (Inl e)
  with assms show ?thesis by (simp add: load_read_error)
next
  case (Inr df0)
  from assms(1) show ?thesis
  proof
    assume "load_by = PyStr ''name''"
    with Inr assms(2) show ?thesis by (auto simp add: load_name_read)
  next
    assume "load_by = PyStr ''coord''"
    with Inr assms(2) show ?thesis by (auto simp add: load_coord_read)
  qed
qed

subsection \<open>Normalisation of names\<close>

lemma isspace_lower_char: "isspace (lower_char c) = isspace c"
proof -
  have "(of_char c :: nat) < 256" by simp
  then show ?thesis
    by (auto simp add: isspace_def lower_char_def Let_def)
qed

lemma same_letter_isspace:
  "lower_char c = lower_char d \<Longrightarrow> isspace c = isspace d"
  by (metis isspace_lower_char)

lemma dropWhile_rel:
  "list_all2 R xs ys \<Longrightarrow> (\<And>x y. R x y \<Longrightarrow> P x = Q y)
     \<Longrightarrow> list_all2 R (dropWhile P xs) (dropWhile Q ys)"
  by (induction rule: list_all2_induct) auto

lemma strip_rel:
  assumes "list_all2 (\<lambda>c d. lower_char c = lower_char d) s t"
  shows "list_all2 (\<lambda>c d. lower_char c = lower_char d) (strip s) (strip t)"
proof -
  let ?R = "\<lambda>c d. lower_char c = lower_char d"
  have 1: "list_all2 ?R (dropWhile isspace s) (dropWhile isspace t)"
    using assms by (rule dropWhile_rel) (rule same_letter_isspace)
  have 2: "list_all2 ?R (rev (dropWhile isspace s)) (rev (dropWhile isspace t))"
    using 1 by simp
  have 3: "list_all2 ?R (dropWhile isspace (rev (dropWhile isspace s)))
                        (dropWhile isspace (rev (dropWhile isspace t)))"
    using 2 by (rule dropWhile_rel) (rule same_letter_isspace)
  then show ?thesis by (simp add: strip_def)
qed

lemma lower_rel:
  "list_all2 (\<lambda>c d. lower_char c = lower_char d) s t \<Longrightarrow> lower s = lower t"
  unfolding lower_def by (induction rule: list_all2_induct) auto

lemma normalize_recase:
  "list_all2 (\<lambda>c d. lower_char c = lower_char d) s t \<Longrightarrow> normalize s = normalize t"
  by (rule lower_rel) (rule strip_rel)

lemma dropWhile_all: "list_all P xs \<Longrightarrow> dropWhile P (xs @ ys) = dropWhile P ys"
  by (induction xs) auto

lemma strip_pad:
  assumes l: "list_all isspace l" and r: "list_all isspace r"
  shows "strip (l @ s @ r) = strip s"
proof -
  have a: "dropWhile isspace (l @ s @ r) = dropWhile isspace (s @ r)"
    using l by (rule dropWhile_all)
  have rr: "list_all isspace (rev r)" using r by (simp add: list_all_iff)
  show ?thesis
  proof (cases "list_all isspace s")
    case True
    then have "dropWhile isspace (s @ r) = dropWhile isspace r" by (rule dropWhile_all)
    also have "\<dots> = []" using r by (simp add: list_all_iff)
    finally have e1: "dropWhile isspace (s @ r) = []" .
    have e2: "dropWhile isspace s = []" using True by (simp add: list_all_iff)
    show ?thesis by (simp only: strip_def a e1 e2)
  next
    case False
    then obtain x where "x \<in> set s" "\<not> isspace x" by (auto simp add: list_all_iff)
    then have "dropWhile isspace (s @ r) = dropWhile isspace s @ r"
      by (simp add: dropWhile_append1)
    then have "rev (dropWhile isspace (s @ r)) = rev r @ rev (dropWhile isspace s)" by simp
    then have "dropWhile isspace (rev (dropWhile isspace (s @ r)))
                 = dropWhile isspace (rev (dropWhile isspace s))"
      using rr by (simp add: dropWhile_all)
    then show ?thesis by (simp only: strip_def a)
  qed
qed

lemma variant_normalize: "case_ws_variant s t \<Longrightarrow> normalize s = normalize t"
proof (induction rule: case_ws_variant.induct)
  case (recase s t)
  then show ?case by (rule normalize_recase)
next
  case (pad l r s t)
  then show ?case by (simp add: strip_pad)
next
  case (sym s t)
  then show ?case by simp
qed

lemma variants_normalize:
  "list_all2 case_ws_variant cs cs' \<Longrightarrow> map normalize cs = map normalize cs'"
  by (induction rule: list_all2_induct) (auto dest: variant_normalize)

subsection \<open>Selecting columns\<close>

lemma column_index_less: "c \<in> set cs \<Longrightarrow> column_index c cs < length cs"
  unfolding column_index_def by (induction cs) auto

lemma column_index_nth: "c \<in> set cs \<Longrightarrow> cs ! column_index c cs = c"
  unfolding column_index_def by (induction cs) auto

lemma filter_eq_position: "i < n \<Longrightarrow> filter (\<lambda>j. j = i) [0..<n] = [i]"
  by (induction n) (auto simp add: less_Suc_eq)

lemma positions_distinct:
  assumes "distinct cs" and "i < length cs"
  shows "positions (cs ! i) cs = [i]"
proof -
  have "filter (\<lambda>j. cs ! j = cs ! i) [0..<length cs] = filter (\<lambda>j. j = i) [0..<length cs]"
    using assms by (intro filter_cong) (auto simp add: nth_eq_iff_index_eq)
  with assms(2) show ?thesis by (simp add: positions_def filter_eq_position)
qed

lemma getitem_distinct:
  "distinct (columns df) \<Longrightarrow> i < length (columns df) \<Longrightarrow>
   getitem df (columns df ! i) = Inr (Series (map (\<lambda>r. r ! i) (rows df)))"
  by (simp add: getitem_def positions_distinct)

lemma getitem_list_two:
  "distinct (columns df) \<Longrightarrow> i < length (columns df) \<Longrightarrow> j < length (columns df) \<Longrightarrow>
   getitem_list df [columns df ! i, columns df ! j] = Inr (take_columns [i, j] df)"
  by (simp add: getitem_list_def positions_distinct)

lemma to_records_two:
  "distinct (columns df) \<Longrightarrow> i < length (columns df) \<Longrightarrow> j < length (columns df) \<Longrightarrow> i \<noteq> j \<Longrightarrow>
   to_records_tolist (take_columns [i, j] df) = Inr (map (\<lambda>r. [r ! i, r ! j]) (rows df))"
  by (simp add: to_records_tolist_def take_columns_def nth_eq_iff_index_eq)

lemma coords_of_two:
  assumes "distinct (columns df)" "i < length (columns df)" "j < length (columns df)" "i \<noteq> j"
  shows "bind_err (getitem_list df [columns df ! i, columns df ! j])
           (\<lambda>coord. bind_err (to_records_tolist coord) (\<lambda>ts. Inr (Coords ts)))
         = Inr (Coords (map (\<lambda>r. [r ! i, r ! j]) (rows df)))"
  using assms by (simp add: getitem_list_two to_records_two bind_err_def)

lemma load_names_named:
  assumes "distinct (columns df)" "normalize n \<noteq> []" "normalize n \<in> set (columns df)"
  shows "load_names df (PyStr n)
           = Inr (Names (map (\<lambda>r. r ! column_index (normalize n) (columns df)) (rows df)))"
proof -
  let ?i = "column_index (normalize n) (columns df)"
  have i: "?i < length (columns df)" and c: "columns df ! ?i = normalize n"
    using assms(3) by (simp_all add: column_index_less column_index_nth)
  from getitem_distinct [OF assms(1) i]
  have "getitem df (normalize n) = Inr (Series (map (\<lambda>r. r ! ?i) (rows df)))"
    by (simp only: c)
  with assms(2,3) show ?thesis
    by (simp add: load_names_def Let_def bind_err_def to_list_def)
qed

lemma load_names_first:
  assumes "distinct (columns df)" "normalize n = []" "columns df \<noteq> []"
  shows "load_names df (PyStr n) = Inr (Names (map (\<lambda>r. r ! 0) (rows df)))"
proof -
  from assms(3) obtain c cs where cs: "columns df = c # cs" by (cases "columns df") auto
  then have "0 < length (columns df)" by simp
  from getitem_distinct [OF assms(1) this] cs
  have "getitem df c = Inr (Series (map (\<lambda>r. r ! 0) (rows df)))" by simp
  with assms(2) cs show ?thesis
    by (simp add: load_names_def Let_def bind_err_def to_list_def first_column_def)
qed

lemma load_names_missing:
  "normalize n \<noteq> [] \<Longrightarrow> normalize n \<notin> set (columns df) \<Longrightarrow>
   load_names df (PyStr n) = Inl (missing_column (normalize n))"
  by (simp add: load_names_def Let_def)

lemma load_coords_named:
  assumes "distinct (columns df)"
    and "normalize ra \<noteq> []" "normalize ra \<in> set (columns df)"
    and "normalize dec \<noteq> []" "normalize dec \<in> set (columns df)"
    and "normalize ra \<noteq> normalize dec"
  shows "load_coords df (PyStr ra) (PyStr dec)
           = Inr (Coords (map (\<lambda>r. [r ! column_index (normalize ra) (columns df),
                                      r ! column_index (normalize dec) (columns df)]) (rows df)))"
proof -
  let ?i = "column_index (normalize ra) (columns df)"
  let ?j = "column_index (normalize dec) (columns df)"
  have i: "?i < length (columns df)" and ci: "columns df ! ?i = normalize ra"
    using assms(3) by (simp_all add: column_index_less column_index_nth)
  have j: "?j < length (columns df)" and cj: "columns df ! ?j = normalize dec"
    using assms(5) by (simp_all add: column_index_less column_index_nth)
  have ij: "?i \<noteq> ?j" using ci cj assms(6) by metis
  from coords_of_two [OF assms(1) i j ij]
  have "bind_err (getitem_list df [normalize ra, normalize dec])
           (\<lambda>coord. bind_err (to_records_tolist coord) (\<lambda>ts. Inr (Coords ts)))
         = Inr (Coords (map (\<lambda>r. [r ! ?i, r ! ?j]) (rows df)))"
    by (simp only: ci cj)
  with assms(2-5) show ?thesis
    by (simp add: load_coords_def Let_def)
qed

lemma load_coords_first_two:
  assumes "distinct (columns df)" "2 \<le> length (columns df)"
    and "normalize ra = [] \<or> normalize dec = []"
    and "normalize ra = [] \<or> normalize ra \<in> set (columns df)"
    and "normalize dec = [] \<or> normalize dec \<in> set (columns df)"
  shows "load_coords df (PyStr ra) (PyStr dec)
           = Inr (Coords (map (\<lambda>r. [r ! 0, r ! 1]) (rows df)))"
proof -
  from assms(2) obtain a b cs where cs: "columns df = a # b # cs"
    by (cases "columns df"; cases "tl (columns df)") auto
  then have two: "first_two_columns df = [columns df ! 0, columns df ! 1]"
    by (simp add: first_two_columns_def)
  have "0 < length (columns df)" "1 < length (columns df)" "(0::nat) \<noteq> 1" using cs by simp_all
  from coords_of_two [OF assms(1) this]
  have "bind_err (getitem_list df (first_two_columns df))
           (\<lambda>coord. bind_err (to_records_tolist coord) (\<lambda>ts. Inr (Coords ts)))
         = Inr (Coords (map (\<lambda>r. [r ! 0, r ! 1]) (rows df)))"
    by (simp only: two)
  with assms(3-5) show ?thesis
    by (auto simp add: load_coords_def Let_def)
qed

lemma load_coords_missing_ra:
  "normalize ra \<noteq> [] \<Longrightarrow> normalize ra \<notin> set (columns df) \<Longrightarrow>
   load_coords df (PyStr ra) (PyStr dec) = Inl (missing_column (normalize ra))"
  by (simp add: load_coords_def Let_def)

lemma load_coords_missing_dec:
  "normalize dec \<noteq> [] \<Longrightarrow> normalize dec \<notin> set (columns df) \<Longrightarrow>
   normalize ra = [] \<or> normalize ra \<in> set (columns df) \<Longrightarrow>
   load_coords df (PyStr ra) (PyStr dec) = Inl (missing_column (normalize dec))"
  by (auto simp add: load_coords_def Let_def)

lemma load_name_table:
  "endswith f ''.csv'' \<Longrightarrow> map_of (contents fs) f = Some (Inr df) \<Longrightarrow>
   load_targets_from_file fs (PyStr f) (PyStr ''name'') n r d
     = (load_names (rename_columns normalize df) n, fs\<lparr>opened := opened fs @ [f]\<rparr>)"
  by (simp add: load_targets_from_file_def read_csv_def)

lemma load_coord_table:
  "endswith f ''.csv'' \<Longrightarrow> map_of (contents fs) f = Some (Inr df) \<Longrightarrow>
   load_targets_from_file fs (PyStr f) (PyStr ''coord'') n r d
     = (load_coords (rename_columns normalize df) r d, fs\<lparr>opened := opened fs @ [f]\<rparr>)"
  by (simp add: load_targets_from_file_def read_csv_def)

lemma renamed_fields:
  "columns (rename_columns f df) = map f (columns df)" "rows (rename_columns f df) = rows df"
  by (simp_all add: rename_columns_def)

text \<open>
  Labels that repeat in the header: \<^verbatim>\<open>df[label]\<close> is a \<^verbatim>\<open>Series\<close> exactly when the label
  is carried by one column, whatever the other columns are called.
\<close>

lemma positions_Cons:
  "positions n (c # cs) = (if c = n then [0] else []) @ map Suc (positions n cs)"
proof -
  have "[0..<length (c # cs)] = 0 # map Suc [0..<length cs]"
    by (simp add: upt_conv_Cons map_Suc_upt del: upt_Suc)
  then show ?thesis
    by (simp add: positions_def filter_map comp_def del: upt_Suc)
qed

lemma length_positions: "length (positions n cs) = length (filter (\<lambda>x. x = n) cs)"
  by (induction cs) (simp_all add: positions_Cons, simp add: positions_def)

lemma positions_once:
  "length (filter (\<lambda>x. x = n) cs) = 1 \<Longrightarrow> positions n cs = [column_index n cs]"
proof (induction cs)
  case Nil
  then show ?case by simp
next
  case (Cons c cs)
  show ?case
  proof (cases "c = n")
    case True
    with Cons.prems have "length (positions n cs) = 0" by (simp add: length_positions)
    with True show ?thesis by (simp add: positions_Cons column_index_def)
  next
    case False
    with Cons show ?thesis by (simp add: positions_Cons column_index_def)
  qed
qed

lemma positions_repeated:
  "2 \<le> length (filter (\<lambda>x. x = n) cs) \<Longrightarrow> \<exists>i j js. positions n cs = i # j # js"
proof -
  assume "2 \<le> length (filter (\<lambda>x. x = n) cs)"
  then have "2 \<le> length (positions n cs)" by (simp add: length_positions)
  then show ?thesis
    by (cases "positions n cs"; cases "tl (positions n cs)") auto
qed

lemma getitem_once:
  "length (filter (\<lambda>x. x = n) (columns df)) = 1 \<Longrightarrow>
   getitem df n = Inr (Series (map (\<lambda>r. r ! column_index n (columns df)) (rows df)))"
  by (simp add: getitem_def positions_once)

lemma getitem_repeated:
  "2 \<le> length (filter (\<lambda>x. x = n) (columns df)) \<Longrightarrow> \<exists>t. getitem df n = Inr (Frame t)"
  using positions_repeated [of n "columns df"] by (auto simp add: getitem_def)

lemma occurs_in_set: "1 \<le> length (filter (\<lambda>x. x = n) cs) \<Longrightarrow> n \<in> set cs"
  by (induction cs) (auto split: if_splits)

lemma load_names_label_once:
  assumes "normalize n \<noteq> []"
    and "length (filter (\<lambda>x. x = normalize n) (columns df)) = 1"
  shows "load_names df (PyStr n)
           = Inr (Names (map (\<lambda>r. r ! column_index (normalize n) (columns df)) (rows df)))"
proof -
  have "normalize n \<in> set (columns df)" using assms(2) by (intro occurs_in_set) simp
  with assms show ?thesis
    by (simp add: load_names_def Let_def bind_err_def to_list_def getitem_once)
qed

lemma load_names_label_repeated:
  assumes "normalize n \<noteq> []"
    and "2 \<le> length (filter (\<lambda>x. x = normalize n) (columns df))"
  shows "load_names df (PyStr n) = Inl (AttributeError ''to_list'')"
proof -
  have "normalize n \<in> set (columns df)" using assms(2) by (intro occurs_in_set) simp
  moreover obtain t where "getitem df (normalize n) = Inr (Frame t)"
    using getitem_repeated [OF assms(2)] ..
  ultimately show ?thesis using assms(1)
    by (simp add: load_names_def Let_def bind_err_def to_list_def)
qed

lemma load_names_first_once:
  assumes "normalize n = []" and "columns df = c # cs"
    and "length (filter (\<lambda>x. x = c) (columns df)) = 1"
  shows "load_names df (PyStr n) = Inr (Names (map (\<lambda>r. r ! 0) (rows df)))"
proof -
  have "column_index c (columns df) = 0" using assms(2) by (simp add: column_index_def)
  with getitem_once [OF assms(3)] assms(1,2) show ?thesis
    by (simp add: load_names_def Let_def bind_err_def to_list_def first_column_def)
qed

lemma load_names_first_repeated:
  assumes "normalize n = []" and "columns df = c # cs"
    and "2 \<le> length (filter (\<lambda>x. x = c) (columns df))"
  shows "load_names df (PyStr n) = Inl (AttributeError ''to_list'')"
proof -
  obtain t where "getitem df c = Inr (Frame t)"
    using getitem_repeated [OF assms(3)] ..
  with assms(1,2) show ?thesis
    by (simp add: load_names_def Let_def bind_err_def to_list_def first_column_def)
qed

lemma names_of_unique_label:
  assumes "endswith fname ''.csv''"
    and "map_of (contents fs) fname = Some (Inr df)"
    and "normalize namecol \<noteq> []"
    and "length (filter (\<lambda>x. x = normalize namecol) (map normalize (columns df))) = 1"
  shows "load_targets_from_file fs (PyStr fname) (PyStr ''name'') (PyStr namecol) racol deccol
           = (Inr (Names (map (\<lambda>r. r ! column_index (normalize namecol)
                                         (map normalize (columns df)))
                            (rows df))),
              fs\<lparr>opened := opened fs @ [fname]\<rparr>)"
  using assms by (simp add: load_name_table load_names_label_once renamed_fields)

lemma names_of_repeated_label:
  assumes "endswith fname ''.csv''"
    and "map_of (contents fs) fname = Some (Inr df)"
    and "normalize namecol \<noteq> []"
    and "2 \<le> length (filter (\<lambda>x. x = normalize namecol) (map normalize (columns df)))"
  shows "load_targets_from_file fs (PyStr fname) (PyStr ''name'') (PyStr namecol) racol deccol
           = (Inl (AttributeError ''to_list''), fs\<lparr>opened := opened fs @ [fname]\<rparr>)"
  using assms by (simp add: load_name_table load_names_label_repeated renamed_fields)

lemma names_of_first_column:
  assumes "endswith fname ''.csv''"
    and "map_of (contents fs) fname = Some (Inr df)"
    and "normalize namecol = []"
    and "columns df = c # cs"
    and "length (filter (\<lambda>x. x = normalize c) (map normalize (columns df))) = 1"
  shows "load_targets_from_file fs (PyStr fname) (PyStr ''name'') (PyStr namecol) racol deccol
           = (Inr (Names (map (\<lambda>r. r ! 0) (rows df))), fs\<lparr>opened := opened fs @ [fname]\<rparr>)"
proof -
  have "columns (rename_columns normalize df) = normalize c # map normalize cs"
    using assms(4) by (simp add: renamed_fields)
  from load_names_first_once [OF assms(3) this] assms(1,2,5) show ?thesis
    by (simp add: load_name_table renamed_fields)
qed

subsection \<open>The dictionary\<close>

lemma keys_setitem:
  "map fst (dict_setitem k v d) = (if k \<in> set (map fst d) then map fst d else map fst d @ [k])"
  by (induction d) (auto simp add: rev_image_eqI)

lemma keys_targets_init: "map fst (targets_init names) = rev (remdups (rev names))"
proof (induction names rule: rev_induct)
  case Nil
  show ?case by (simp add: targets_init_def)
next
  case (snoc x xs)
  have "set (map fst (targets_init xs)) = set xs"
    by (simp only: snoc.IH set_rev set_remdups)
  moreover have "targets_init (xs @ [x]) = dict_setitem x 0 (targets_init xs)"
    by (simp add: targets_init_def)
  ultimately show ?case
    using snoc.IH by (simp add: keys_setitem)
qed

lemma setitem_present:
  "distinct (map fst d) \<Longrightarrow> k \<in> set (map fst d) \<Longrightarrow>
   dict_setitem k v d = map (\<lambda>(k', v'). (k', if k' = k then v else v')) d"
proof (induction d)
  case Nil
  then show ?case by simp
next
  case (Cons p d)
  obtain k' v' where p: "p = (k', v')" by (cases p)
  show ?case
  proof (cases "k' = k")
    case True
    with Cons.prems p have "k \<notin> set (map fst d)" by simp
    then have "map (\<lambda>(k', v'). (k', if k' = k then v else v')) d = d"
      by (induction d) auto
    with True p show ?thesis by simp
  next
    case False
    with Cons p show ?thesis by simp
  qed
qed

lemma count_loop_total:
  "distinct (map fst d) \<Longrightarrow> set ts \<subseteq> set (map fst d) \<Longrightarrow>
   count_loop (\<lambda>t. Inr (count t)) ts d
     = Inr (map (\<lambda>(k, v). (k, if k \<in> set ts then count k else v)) d)"
proof (induction ts arbitrary: d)
  case Nil
  then show ?case by simp
next
  case (Cons t ts)
  let ?d = "map (\<lambda>(k', v'). (k', if k' = t then count t else v')) d"
  have step: "dict_setitem t (count t) d = ?d"
    using Cons.prems by (simp add: setitem_present)
  have keys: "map fst ?d = map fst d" by (induction d) auto
  have "count_loop (\<lambda>t. Inr (count t)) ts ?d
          = Inr (map (\<lambda>(k, v). (k, if k \<in> set ts then count k else v)) ?d)"
    using Cons.prems by (intro Cons.IH) (simp_all only: keys, simp)
  moreover have "map (\<lambda>(k, v). (k, if k \<in> set ts then count k else v)) ?d
                  = map (\<lambda>(k, v). (k, if k \<in> set (t # ts) then count k else v)) d"
    by (induction d) auto
  ultimately show ?case by (simp add: step)
qed

section \<open>The claims\<close>

subsection \<open>Checks before the file is read\<close>

text \<open>
  Claim C5. A file name that does not end in \<^verbatim>\<open>.csv\<close> makes the loader fail with an
  assertion error, whatever the storage holds: the error is determined by the arguments
  alone and the storage comes back as it was passed in, nothing having been opened. The
  error is the one about the extension unless an earlier check (file name not a string,
  unknown mode) has already failed.
\<close>

theorem bad_extension_fails:
  assumes "\<forall>f. filename = PyStr f \<longrightarrow> \<not> endswith f ''.csv''"
  shows "load_targets_from_file fs filename load_by namecol racol deccol
           = (Inl (if \<forall>f. filename \<noteq> PyStr f then filename_not_str
                   else if load_by \<notin> {PyStr ''name'', PyStr ''coord''} then bad_load_by
                   else not_csv),
              fs)"
proof (cases "\<exists>f. filename = PyStr f")
  case False
  then show ?thesis by (simp add: load_not_str)
next
  case True
  then obtain f where f: "filename = PyStr f" ..
  with assms have "\<not> endswith f ''.csv''" by simp
  with f show ?thesis by (auto simp add: load_not_csv load_bad_mode)
qed

theorem bad_extension_fails_witness:
  "load_targets_from_file notebook_storage (PyStr ''targets.csv.txt'') (PyStr ''name'')
     (PyStr ''target_name'') (PyStr ''ra'') (PyStr ''dec'')
     = (Inl not_csv, notebook_storage)"
proof -
  have "\<not> endswith ''targets.csv.txt'' ''.csv''" by code_simp
  then have h: "\<forall>f. PyStr ''targets.csv.txt'' = PyStr f \<longrightarrow> \<not> endswith f ''.csv''" by simp
  show ?thesis
    using bad_extension_fails [OF h, where fs = notebook_storage and load_by = "PyStr ''name''"] by simp
qed

text \<open>
  Claim C6. A mode outside \<open>{"name", "coord"}\<close> makes the loader fail with an assertion
  error and leaves the storage untouched: the error is the one about the mode when the file
  name is a string, and the one about the file name otherwise. A mode inside the set passes
  the check: whatever else happens, the result is never the mode error.
\<close>

theorem load_by_checked:
  "(load_by \<notin> {PyStr ''name'', PyStr ''coord''} \<longrightarrow>
      load_targets_from_file fs filename load_by namecol racol deccol
        = (Inl (if \<forall>f. filename \<noteq> PyStr f then filename_not_str else bad_load_by), fs))
   \<and> (load_by \<in> {PyStr ''name'', PyStr ''coord''} \<longrightarrow>
        fst (load_targets_from_file fs filename load_by namecol racol deccol) \<noteq> Inl bad_load_by)"
proof (intro conjI impI)
  assume bad: "load_by \<notin> {PyStr ''name'', PyStr ''coord''}"
  show "load_targets_from_file fs filename load_by namecol racol deccol
          = (Inl (if \<forall>f. filename \<noteq> PyStr f then filename_not_str else bad_load_by), fs)"
  proof (cases "\<exists>f. filename = PyStr f")
    case True
    with bad show ?thesis by (auto simp add: load_bad_mode)
  next
    case False
    then show ?thesis by (simp add: load_not_str)
  qed
next
  assume ok: "load_by \<in> {PyStr ''name'', PyStr ''coord''}"
  show "fst (load_targets_from_file fs filename load_by namecol racol deccol) \<noteq> Inl bad_load_by"
  proof (cases "\<exists>f. filename = PyStr f")
    case False
    then show ?thesis by (simp add: load_not_str fixed_errors_neq)
  next
    case True
    then obtain f where f: "filename = PyStr f" ..
    show ?thesis
    proof (cases "endswith f ''.csv''")
      case False
      with ok f show ?thesis by (simp add: load_not_csv fixed_errors_neq)
    next
      case True
      from ok have "load_by = PyStr ''name'' \<or> load_by = PyStr ''coord''" by simp
      from load_valid_cases [OF this True, of fs namecol racol deccol] f show ?thesis
        by (auto simp add: load_names_not_fixed load_coords_not_fixed read_error_neq)
    qed
  qed
qed

theorem load_by_checked_witness:
  "load_targets_from_file notebook_storage (PyStr ''targets.csv'') (PyStr ''coords'')
     (PyStr ''target_name'') (PyStr ''ra'') (PyStr ''dec'')
     = (Inl bad_load_by, notebook_storage)
   \<and> fst (load_targets_from_file notebook_storage (PyStr ''targets.csv'') (PyStr ''coord'')
            (PyStr ''target_name'') (PyStr ''ra'') (PyStr ''dec'')) \<noteq> Inl bad_load_by"
proof -
  have bad: "PyStr ''coords'' \<notin> {PyStr ''name'', PyStr ''coord''}" by simp
  have ok: "PyStr ''coord'' \<in> {PyStr ''name'', PyStr ''coord''}" by simp
  from bad load_by_checked [where load_by = "PyStr ''coords''" and fs = notebook_storage
                              and filename = "PyStr ''targets.csv''"]
  have "load_targets_from_file notebook_storage (PyStr ''targets.csv'') (PyStr ''coords'')
          (PyStr ''target_name'') (PyStr ''ra'') (PyStr ''dec'')
          = (Inl bad_load_by, notebook_storage)"
    by simp
  moreover from ok load_by_checked [where load_by = "PyStr ''coord''" and fs = notebook_storage
                                        and filename = "PyStr ''targets.csv''"]
  have "fst (load_targets_from_file notebook_storage (PyStr ''targets.csv'') (PyStr ''coord'')
               (PyStr ''target_name'') (PyStr ''ra'') (PyStr ''dec'')) \<noteq> Inl bad_load_by"
    by blast
  ultimately show ?thesis by simp
qed

text \<open>
  Claim C10. The checks come in the order: the file name is a string, the mode is known,
  the file name ends in \<^verbatim>\<open>.csv\<close>. A file name that is not a string fails with the first
  error whatever the mode; an unknown mode fails with the mode error whatever the
  extension; a known mode with a bad extension fails with the extension error. Whenever
  the result is one of these three errors the storage is returned as it was passed in:
  no file has been opened.
\<close>

theorem validation_order:
  "((\<forall>f. filename \<noteq> PyStr f) \<longrightarrow>
      load_targets_from_file fs filename load_by namecol racol deccol = (Inl filename_not_str, fs))
   \<and> (load_by \<notin> {PyStr ''name'', PyStr ''coord''} \<longrightarrow>
      load_targets_from_file fs (PyStr fname) load_by namecol racol deccol = (Inl bad_load_by, fs))
   \<and> (load_by \<in> {PyStr ''name'', PyStr ''coord''} \<and> \<not> endswith fname ''.csv'' \<longrightarrow>
      load_targets_from_file fs (PyStr fname) load_by namecol racol deccol = (Inl not_csv, fs))
   \<and> (fst (load_targets_from_file fs filename load_by namecol racol deccol)
         \<in> {Inl filename_not_str, Inl bad_load_by, Inl not_csv} \<longrightarrow>
      snd (load_targets_from_file fs filename load_by namecol racol deccol) = fs)"
proof (intro conjI impI)
  assume "\<forall>f. filename \<noteq> PyStr f"
  then show "load_targets_from_file fs filename load_by namecol racol deccol = (Inl filename_not_str, fs)"
    by (rule load_not_str)
next
  assume "load_by \<notin> {PyStr ''name'', PyStr ''coord''}"
  then show "load_targets_from_file fs (PyStr fname) load_by namecol racol deccol = (Inl bad_load_by, fs)"
    by (simp add: load_bad_mode)
next
  assume "load_by \<in> {PyStr ''name'', PyStr ''coord''} \<and> \<not> endswith fname ''.csv''"
  then show "load_targets_from_file fs (PyStr fname) load_by namecol racol deccol = (Inl not_csv, fs)"
    by (simp add: load_not_csv)
next
  assume err: "fst (load_targets_from_file fs filename load_by namecol racol deccol)
                 \<in> {Inl filename_not_str, Inl bad_load_by, Inl not_csv}"
  show "snd (load_targets_from_file fs filename load_by namecol racol deccol) = fs"
  proof (cases "\<exists>f. filename = PyStr f")
    case False
    then show ?thesis by (simp add: load_not_str)
  next
    case True
    then obtain f where f: "filename = PyStr f" ..
    show ?thesis
    proof (cases "load_by = PyStr ''name'' \<or> load_by = PyStr ''coord''")
      case False
      with f show ?thesis by (simp add: load_bad_mode)
    next
      case mode: True
      show ?thesis
      proof (cases "endswith f ''.csv''")
        case False
        with mode f show ?thesis by (simp add: load_not_csv)
      next
        case True
        from load_valid_cases [OF mode True, of fs namecol racol deccol] err f show ?thesis
          by (auto simp add: load_names_not_fixed load_coords_not_fixed read_error_neq)
      qed
    qed
  qed
qed

theorem validation_order_witness:
  "load_targets_from_file notebook_storage (PyInt 7) (PyStr ''coords'')
     (PyStr ''target_name'') (PyStr ''ra'') (PyStr ''dec'')
     = (Inl filename_not_str, notebook_storage)
   \<and> load_targets_from_file notebook_storage (PyStr ''targets.txt'') (PyStr ''coords'')
       (PyStr ''target_name'') (PyStr ''ra'') (PyStr ''dec'')
     = (Inl bad_load_by, notebook_storage)
   \<and> load_targets_from_file notebook_storage (PyStr ''targets.txt'') (PyStr ''coord'')
       (PyStr ''target_name'') (PyStr ''ra'') (PyStr ''dec'')
     = (Inl not_csv, notebook_storage)
   \<and> snd (load_targets_from_file notebook_storage (PyStr ''targets.txt'') (PyStr ''coord'')
       (PyStr ''target_name'') (PyStr ''ra'') (PyStr ''dec''))
     = notebook_storage"
proof -
  have ext: "\<not> endswith ''targets.txt'' ''.csv''" by code_simp
  have 1: "\<forall>f. PyInt 7 \<noteq> PyStr f" by simp
  have 2: "PyStr ''coords'' \<notin> {PyStr ''name'', PyStr ''coord''}" by simp
  have 3: "PyStr ''coord'' \<in> {PyStr ''name'', PyStr ''coord''} \<and> \<not> endswith ''targets.txt'' ''.csv''"
    using ext by simp
  from 1 validation_order [where filename = "PyInt 7" and fs = notebook_storage
                              and load_by = "PyStr ''coords''"]
  have a: "load_targets_from_file notebook_storage (PyInt 7) (PyStr ''coords'')
             (PyStr ''target_name'') (PyStr ''ra'') (PyStr ''dec'')
             = (Inl filename_not_str, notebook_storage)"
    by blast
  from 2 validation_order [where fs = notebook_storage and load_by = "PyStr ''coords''"
                              and fname = "''targets.txt''"]
  have b: "load_targets_from_file notebook_storage (PyStr ''targets.txt'') (PyStr ''coords'')
             (PyStr ''target_name'') (PyStr ''ra'') (PyStr ''dec'')
             = (Inl bad_load_by, notebook_storage)"
    by blast
  from 3 validation_order [where fs = notebook_storage and load_by = "PyStr ''coord''"
                              and fname = "''targets.txt''"]
  have c: "load_targets_from_file notebook_storage (PyStr ''targets.txt'') (PyStr ''coord'')
             (PyStr ''target_name'') (PyStr ''ra'') (PyStr ''dec'')
             = (Inl not_csv, notebook_storage)"
    by blast
  from c have 4: "fst (load_targets_from_file notebook_storage (PyStr ''targets.txt'')
                         (PyStr ''coord'') (PyStr ''target_name'') (PyStr ''ra'') (PyStr ''dec''))
                    \<in> {Inl filename_not_str, Inl bad_load_by, Inl not_csv}"
    by simp
  from 4 validation_order [where filename = "PyStr ''targets.txt''" and fs = notebook_storage
                              and load_by = "PyStr ''coord''" and namecol = "PyStr ''target_name''"
                              and racol = "PyStr ''ra''" and deccol = "PyStr ''dec''"]
  have d: "snd (load_targets_from_file notebook_storage (PyStr ''targets.txt'') (PyStr ''coord'')
             (PyStr ''target_name'') (PyStr ''ra'') (PyStr ''dec''))
           = notebook_storage"
    by blast
  from a b c d show ?thesis by simp
qed

text \<open>
  Claim C9. In name mode the result does not depend on the RA and Dec arguments, and in
  coordinate mode it does not depend on the name argument: any two values, of any Python
  type, give the same result and the same storage.
\<close>

theorem irrelevant_columns_ignored:
  "load_targets_from_file fs filename (PyStr ''name'') namecol racol deccol
     = load_targets_from_file fs filename (PyStr ''name'') namecol racol' deccol'
   \<and> load_targets_from_file fs filename (PyStr ''coord'') namecol racol deccol
     = load_targets_from_file fs filename (PyStr ''coord'') namecol' racol deccol"
  by (cases filename)
     (simp_all add: load_targets_from_file_def Let_def split: prod.splits sum.splits)

theorem irrelevant_columns_ignored_witness:
  "load_targets_from_file notebook_storage (PyStr ''targets.csv'') (PyStr ''name'')
     (PyStr ''target_name'') (PyStr ''no such column'') PyNone
     = load_targets_from_file notebook_storage (PyStr ''targets.csv'') (PyStr ''name'')
         (PyStr ''target_name'') (PyStr ''ra'') (PyStr ''dec'')"
  using irrelevant_columns_ignored
          [where fs = notebook_storage and filename = "PyStr ''targets.csv''"
             and namecol = "PyStr ''target_name''" and racol = "PyStr ''no such column''"
             and deccol = PyNone and racol' = "PyStr ''ra''" and deccol' = "PyStr ''dec''"]
  by simp

subsection \<open>Resolving the columns\<close>

text \<open>
  Claim C1, amended. The positional default applies to an override that is empty after
  trimming, not to one that is left out. For a readable \<^verbatim>\<open>.csv\<close> file whose normalised
  header names are distinct: with an empty name override, name mode returns the values of
  the first column; with an empty RA or Dec override (the other one empty or naming an
  existing column) and at least two columns, coordinate mode returns the pairs of the
  first and second columns. A call that leaves the overrides out takes the defaults
  \<^verbatim>\<open>'target_name'\<close>, \<^verbatim>\<open>'ra'\<close> and \<^verbatim>\<open>'dec'\<close>: it returns the columns carrying
  those names, wherever they stand, and name mode fails when no column is called
  \<^verbatim>\<open>target_name\<close>.
\<close>

theorem positional_default_when_empty:
  assumes "endswith fname ''.csv''"
    and "map_of (contents fs) fname = Some (Inr df)"
    and "distinct (map normalize (columns df))"
  shows "(normalize namecol = [] \<and> columns df \<noteq> [] \<longrightarrow>
            load_targets_from_file fs (PyStr fname) (PyStr ''name'') (PyStr namecol) racol deccol
              = (Inr (Names (map (\<lambda>r. r ! 0) (rows df))), fs\<lparr>opened := opened fs @ [fname]\<rparr>))
       \<and> ((normalize ra = [] \<or> normalize dec = [])
            \<and> (normalize ra = [] \<or> normalize ra \<in> set (map normalize (columns df)))
            \<and> (normalize dec = [] \<or> normalize dec \<in> set (map normalize (columns df)))
            \<and> 2 \<le> length (columns df) \<longrightarrow>
            load_targets_from_file fs (PyStr fname) (PyStr ''coord'') namecol' (PyStr ra) (PyStr dec)
              = (Inr (Coords (map (\<lambda>r. [r ! 0, r ! 1]) (rows df))),
                 fs\<lparr>opened := opened fs @ [fname]\<rparr>))
       \<and> (''target_name'' \<in> set (map normalize (columns df)) \<longrightarrow>
            load_targets_call fs (PyStr fname) None None None None
              = (Inr (Names (map (\<lambda>r. r ! column_index ''target_name'' (map normalize (columns df)))
                               (rows df))),
                 fs\<lparr>opened := opened fs @ [fname]\<rparr>))
       \<and> (''target_name'' \<notin> set (map normalize (columns df)) \<longrightarrow>
            load_targets_call fs (PyStr fname) None None None None
              = (Inl (missing_column ''target_name''), fs\<lparr>opened := opened fs @ [fname]\<rparr>))
       \<and> (''ra'' \<in> set (map normalize (columns df)) \<and> ''dec'' \<in> set (map normalize (columns df)) \<longrightarrow>
            load_targets_call fs (PyStr fname) (Some (PyStr ''coord'')) None None None
              = (Inr (Coords (map (\<lambda>r. [r ! column_index ''ra'' (map normalize (columns df)),
                                         r ! column_index ''dec'' (map normalize (columns df))])
                                (rows df))),
                 fs\<lparr>opened := opened fs @ [fname]\<rparr>))"
proof -
  have tn: "normalize ''target_name'' = ''target_name''" by code_simp
  have ra: "normalize ''ra'' = ''ra''" and dec: "normalize ''dec'' = ''dec''" by code_simp+
  show ?thesis
  proof (intro conjI impI)
    assume "normalize namecol = [] \<and> columns df \<noteq> []"
    with assms show "load_targets_from_file fs (PyStr fname) (PyStr ''name'') (PyStr namecol) racol deccol
              = (Inr (Names (map (\<lambda>r. r ! 0) (rows df))), fs\<lparr>opened := opened fs @ [fname]\<rparr>)"
      by (simp add: load_name_table load_names_first renamed_fields)
  next
    assume "(normalize ra = [] \<or> normalize dec = [])
            \<and> (normalize ra = [] \<or> normalize ra \<in> set (map normalize (columns df)))
            \<and> (normalize dec = [] \<or> normalize dec \<in> set (map normalize (columns df)))
            \<and> 2 \<le> length (columns df)"
    with assms show "load_targets_from_file fs (PyStr fname) (PyStr ''coord'') namecol' (PyStr ra) (PyStr dec)
              = (Inr (Coords (map (\<lambda>r. [r ! 0, r ! 1]) (rows df))),
                 fs\<lparr>opened := opened fs @ [fname]\<rparr>)"
      by (simp add: load_coord_table load_coords_first_two renamed_fields)
  next
    assume "''target_name'' \<in> set (map normalize (columns df))"
    with assms tn show "load_targets_call fs (PyStr fname) None None None None
              = (Inr (Names (map (\<lambda>r. r ! column_index ''target_name'' (map normalize (columns df)))
                               (rows df))),
                 fs\<lparr>opened := opened fs @ [fname]\<rparr>)"
      by (simp add: load_targets_call_def load_name_table load_names_named renamed_fields)
  next
    assume "''target_name'' \<notin> set (map normalize (columns df))"
    with assms tn show "load_targets_call fs (PyStr fname) None None None None
              = (Inl (missing_column ''target_name''), fs\<lparr>opened := opened fs @ [fname]\<rparr>)"
      by (simp add: load_targets_call_def load_name_table load_names_missing renamed_fields)
  next
    assume "''ra'' \<in> set (map normalize (columns df)) \<and> ''dec'' \<in> set (map normalize (columns df))"
    with assms ra dec
    show "load_targets_call fs (PyStr fname) (Some (PyStr ''coord'')) None None None
              = (Inr (Coords (map (\<lambda>r. [r ! column_index ''ra'' (map normalize (columns df)),
                                         r ! column_index ''dec'' (map normalize (columns df))])
                                (rows df))),
                 fs\<lparr>opened := opened fs @ [fname]\<rparr>)"
      by (simp add: load_targets_call_def load_coord_table load_coords_named renamed_fields)
  qed
qed

theorem positional_default_when_empty_witness:
  "fst (load_targets_from_file notebook_storage (PyStr ''targets.csv'') (PyStr ''name'')
          (PyStr '' '') (PyStr ''ra'') (PyStr ''dec''))
     = Inr (Names [''CX Tau'', ''Fomalhaut'', ''HL Tauri'', ''M 8'', ''HD 12345''])
   \<and> fst (load_targets_from_file notebook_storage (PyStr ''targets.csv'') (PyStr ''coord'')
            (PyStr ''target_name'') (PyStr '''') (PyStr ''dec''))
     = Inr (Coords [[''CX Tau'', ''67.910''], [''Fomalhaut'', ''67.910''],
                    [''HL Tauri'', ''67.910''], [''M 8'', ''67.910''], [''HD 12345'', ''67.910'']])
   \<and> fst (load_targets_call notebook_storage (PyStr ''targets.csv'') None None None None)
     = Inr (Names [''CX Tau'', ''Fomalhaut'', ''HL Tauri'', ''M 8'', ''HD 12345''])
   \<and> fst (load_targets_call stars_storage (PyStr ''stars.csv'') None None None None)
     = Inl (AssertionError ''csv file does not contain column target_name'')
   \<and> fst (load_targets_call notebook_storage (PyStr ''targets.csv'') (Some (PyStr ''coord''))
            None None None)
     = Inr (Coords [[''67.910'', ''18.2336''], [''67.910'', ''18.2336''], [''67.910'', ''18.2336''],
                    [''67.910'', ''18.2336''], [''67.910'', ''18.2336'']])"
proof -
  have h1: "endswith ''targets.csv'' ''.csv''" by code_simp
  have h2: "map_of (contents notebook_storage) ''targets.csv'' = Some (Inr targets_csv)"
    by (simp add: notebook_storage_def)
  have h3: "distinct (map normalize (columns targets_csv))" by code_simp
  note pos = positional_default_when_empty
               [OF h1 h2 h3, where namecol = "'' ''" and ra = "''''" and dec = "''dec''"
                  and racol = "PyStr ''ra''" and deccol = "PyStr ''dec''"
                  and namecol' = "PyStr ''target_name''"]
  have p1: "normalize '' '' = [] \<and> columns targets_csv \<noteq> []" by code_simp
  have p2: "(normalize '''' = [] \<or> normalize ''dec'' = [])
            \<and> (normalize '''' = [] \<or> normalize '''' \<in> set (map normalize (columns targets_csv)))
            \<and> (normalize ''dec'' = [] \<or> normalize ''dec'' \<in> set (map normalize (columns targets_csv)))
            \<and> 2 \<le> length (columns targets_csv)"
    by code_simp
  have p3: "''target_name'' \<in> set (map normalize (columns targets_csv))" by code_simp
  have "fst (load_targets_from_file notebook_storage (PyStr ''targets.csv'') (PyStr ''name'')
          (PyStr '' '') (PyStr ''ra'') (PyStr ''dec''))
        = Inr (Names (map (\<lambda>r. r ! 0) (rows targets_csv)))"
    using pos p1 by simp
  also have "\<dots> = Inr (Names [''CX Tau'', ''Fomalhaut'', ''HL Tauri'', ''M 8'', ''HD 12345''])"
    by code_simp
  finally have a: "fst (load_targets_from_file notebook_storage (PyStr ''targets.csv'') (PyStr ''name'')
          (PyStr '' '') (PyStr ''ra'') (PyStr ''dec''))
        = Inr (Names [''CX Tau'', ''Fomalhaut'', ''HL Tauri'', ''M 8'', ''HD 12345''])" .
  have "fst (load_targets_from_file notebook_storage (PyStr ''targets.csv'') (PyStr ''coord'')
            (PyStr ''target_name'') (PyStr '''') (PyStr ''dec''))
        = Inr (Coords (map (\<lambda>r. [r ! 0, r ! 1]) (rows targets_csv)))"
    using pos p2 by simp
  also have "\<dots> = Inr (Coords [[''CX Tau'', ''67.910''], [''Fomalhaut'', ''67.910''],
                    [''HL Tauri'', ''67.910''], [''M 8'', ''67.910''], [''HD 12345'', ''67.910'']])"
    by code_simp
  finally have b: "fst (load_targets_from_file notebook_storage (PyStr ''targets.csv'') (PyStr ''coord'')
            (PyStr ''target_name'') (PyStr '''') (PyStr ''dec''))
        = Inr (Coords [[''CX Tau'', ''67.910''], [''Fomalhaut'', ''67.910''],
                    [''HL Tauri'', ''67.910''], [''M 8'', ''67.910''], [''HD 12345'', ''67.910'']])" .
  have "fst (load_targets_call notebook_storage (PyStr ''targets.csv'') None None None None)
        = Inr (Names (map (\<lambda>r. r ! column_index ''target_name'' (map normalize (columns targets_csv)))
                        (rows targets_csv)))"
    using pos p3 by simp
  also have "\<dots> = Inr (Names [''CX Tau'', ''Fomalhaut'', ''HL Tauri'', ''M 8'', ''HD 12345''])"
    by code_simp
  finally have c: "fst (load_targets_call notebook_storage (PyStr ''targets.csv'') None None None None)
        = Inr (Names [''CX Tau'', ''Fomalhaut'', ''HL Tauri'', ''M 8'', ''HD 12345''])" .
  have s1: "endswith ''stars.csv'' ''.csv''" by code_simp
  have s2: "map_of (contents stars_storage) ''stars.csv''
              = Some (Inr \<lparr>columns = [''star'', ''ra'', ''dec''],
                              rows = [[''M 8'', ''270.9'', ''-24.4'']]\<rparr>)"
    by (simp add: stars_storage_def)
  have s3: "distinct (map normalize (columns \<lparr>columns = [''star'', ''ra'', ''dec''],
                                              rows = [[''M 8'', ''270.9'', ''-24.4'']]\<rparr>))"
    by code_simp
  have p4: "''target_name'' \<notin> set (map normalize (columns \<lparr>columns = [''star'', ''ra'', ''dec''],
                                              rows = [[''M 8'', ''270.9'', ''-24.4'']]\<rparr>))"
    by code_simp
  have "fst (load_targets_call stars_storage (PyStr ''stars.csv'') None None None None)
        = Inl (missing_column ''target_name'')"
    using positional_default_when_empty [OF s1 s2 s3] p4 by simp
  also have "\<dots> = Inl (AssertionError ''csv file does not contain column target_name'')"
    by code_simp
  finally have d: "fst (load_targets_call stars_storage (PyStr ''stars.csv'') None None None None)
        = Inl (AssertionError ''csv file does not contain column target_name'')" .
  have p5: "''ra'' \<in> set (map normalize (columns targets_csv))
            \<and> ''dec'' \<in> set (map normalize (columns targets_csv))"
    by code_simp
  have "fst (load_targets_call notebook_storage (PyStr ''targets.csv'') (Some (PyStr ''coord''))
               None None None)
        = Inr (Coords (map (\<lambda>r. [r ! column_index ''ra'' (map normalize (columns targets_csv)),
                                   r ! column_index ''dec'' (map normalize (columns targets_csv))])
                          (rows targets_csv)))"
    using pos p5 by simp
  also have "\<dots> = Inr (Coords [[''67.910'', ''18.2336''], [''67.910'', ''18.2336''],
                    [''67.910'', ''18.2336''], [''67.910'', ''18.2336''], [''67.910'', ''18.2336'']])"
    by code_simp
  finally have e: "fst (load_targets_call notebook_storage (PyStr ''targets.csv'')
                          (Some (PyStr ''coord'')) None None None)
        = Inr (Coords [[''67.910'', ''18.2336''], [''67.910'', ''18.2336''],
                    [''67.910'', ''18.2336''], [''67.910'', ''18.2336''], [''67.910'', ''18.2336'']])" .
  from a b c d e show ?thesis by simp
qed

text \<open>
  Claim C1 as stated fails: the file below has the columns \<^verbatim>\<open>id\<close> and
  \<^verbatim>\<open>target_name\<close>; a call with no overrides returns the second column, not the first.
\<close>

theorem positional_default_counterexample:
  "fst (load_targets_call
          \<lparr>contents = [(''targets.csv'',
                        Inr \<lparr>columns = [''id'', ''target_name''],
                             rows = [[''1'', ''CX Tau''], [''2'', ''M 8'']]\<rparr>)],
           opened = []\<rparr>
          (PyStr ''targets.csv'') None None None None)
     = Inr (Names [''CX Tau'', ''M 8''])
   \<and> fst (load_targets_call
          \<lparr>contents = [(''targets.csv'',
                        Inr \<lparr>columns = [''id'', ''target_name''],
                             rows = [[''1'', ''CX Tau''], [''2'', ''M 8'']]\<rparr>)],
           opened = []\<rparr>
          (PyStr ''targets.csv'') None None None None)
     \<noteq> Inr (Names [''1'', ''2''])"
  by code_simp

text \<open>
  Claim C2, amended. In coordinate mode the override columns are used when both overrides
  are non-empty after trimming: for a readable \<^verbatim>\<open>.csv\<close> file whose normalised header
  names are distinct, two overrides that name two different existing columns give the
  pairs whose first components come from the RA override column and whose second
  components come from the Dec override column. As soon as one override is empty (the
  other one empty or naming an existing column) the pairs are those of the first and second
  columns.
\<close>

theorem coord_columns_resolved:
  assumes "endswith fname ''.csv''"
    and "map_of (contents fs) fname = Some (Inr df)"
    and "distinct (map normalize (columns df))"
  shows "(normalize ra \<noteq> [] \<and> normalize dec \<noteq> []
            \<and> normalize ra \<in> set (map normalize (columns df))
            \<and> normalize dec \<in> set (map normalize (columns df))
            \<and> normalize ra \<noteq> normalize dec \<longrightarrow>
            load_targets_from_file fs (PyStr fname) (PyStr ''coord'') namecol (PyStr ra) (PyStr dec)
              = (Inr (Coords (map (\<lambda>r. [r ! column_index (normalize ra) (map normalize (columns df)),
                                         r ! column_index (normalize dec) (map normalize (columns df))])
                                (rows df))),
                 fs\<lparr>opened := opened fs @ [fname]\<rparr>))
       \<and> ((normalize ra = [] \<or> normalize dec = [])
            \<and> (normalize ra = [] \<or> normalize ra \<in> set (map normalize (columns df)))
            \<and> (normalize dec = [] \<or> normalize dec \<in> set (map normalize (columns df)))
            \<and> 2 \<le> length (columns df) \<longrightarrow>
            load_targets_from_file fs (PyStr fname) (PyStr ''coord'') namecol (PyStr ra) (PyStr dec)
              = (Inr (Coords (map (\<lambda>r. [r ! 0, r ! 1]) (rows df))),
                 fs\<lparr>opened := opened fs @ [fname]\<rparr>))"
  using assms
  by (simp add: load_coord_table load_coords_first_two load_coords_named renamed_fields)

theorem coord_columns_resolved_witness:
  "fst (load_targets_from_file notebook_storage (PyStr ''targets.csv'') (PyStr ''coord'')
          (PyStr ''target_name'') (PyStr ''ra'') (PyStr ''dec''))
     = Inr (Coords [[''67.910'', ''18.2336''], [''67.910'', ''18.2336''], [''67.910'', ''18.2336''],
                    [''67.910'', ''18.2336''], [''67.910'', ''18.2336'']])
   \<and> fst (load_targets_from_file notebook_storage (PyStr ''targets.csv'') (PyStr ''coord'')
          (PyStr ''target_name'') (PyStr ''dec'') (PyStr '' ''))
     = Inr (Coords [[''CX Tau'', ''67.910''], [''Fomalhaut'', ''67.910''],
                    [''HL Tauri'', ''67.910''], [''M 8'', ''67.910''], [''HD 12345'', ''67.910'']])"
proof -
  have h1: "endswith ''targets.csv'' ''.csv''" by code_simp
  have h2: "map_of (contents notebook_storage) ''targets.csv'' = Some (Inr targets_csv)"
    by (simp add: notebook_storage_def)
  have h3: "distinct (map normalize (columns targets_csv))" by code_simp
  have p: "normalize ''ra'' \<noteq> [] \<and> normalize ''dec'' \<noteq> []
            \<and> normalize ''ra'' \<in> set (map normalize (columns targets_csv))
            \<and> normalize ''dec'' \<in> set (map normalize (columns targets_csv))
            \<and> normalize ''ra'' \<noteq> normalize ''dec''"
    by code_simp
  have "fst (load_targets_from_file notebook_storage (PyStr ''targets.csv'') (PyStr ''coord'')
          (PyStr ''target_name'') (PyStr ''ra'') (PyStr ''dec''))
        = Inr (Coords (map (\<lambda>r. [r ! column_index (normalize ''ra'') (map normalize (columns targets_csv)),
                                   r ! column_index (normalize ''dec'') (map normalize (columns targets_csv))])
                          (rows targets_csv)))"
    using coord_columns_resolved
            [OF h1 h2 h3, where ra = "''ra''" and dec = "''dec''"
               and namecol = "PyStr ''target_name''"] p
    by simp
  also have "\<dots> = Inr (Coords [[''67.910'', ''18.2336''], [''67.910'', ''18.2336''],
                    [''67.910'', ''18.2336''], [''67.910'', ''18.2336''], [''67.910'', ''18.2336'']])"
    by code_simp
  finally have a: "fst (load_targets_from_file notebook_storage (PyStr ''targets.csv'') (PyStr ''coord'')
          (PyStr ''target_name'') (PyStr ''ra'') (PyStr ''dec''))
        = Inr (Coords [[''67.910'', ''18.2336''], [''67.910'', ''18.2336''],
                    [''67.910'', ''18.2336''], [''67.910'', ''18.2336''], [''67.910'', ''18.2336'']])" .
  have q: "(normalize ''dec'' = [] \<or> normalize '' '' = [])
            \<and> (normalize ''dec'' = [] \<or> normalize ''dec'' \<in> set (map normalize (columns targets_csv)))
            \<and> (normalize '' '' = [] \<or> normalize '' '' \<in> set (map normalize (columns targets_csv)))
            \<and> 2 \<le> length (columns targets_csv)"
    by code_simp
  have "fst (load_targets_from_file notebook_storage (PyStr ''targets.csv'') (PyStr ''coord'')
          (PyStr ''target_name'') (PyStr ''dec'') (PyStr '' ''))
        = Inr (Coords (map (\<lambda>r. [r ! 0, r ! 1]) (rows targets_csv)))"
    using coord_columns_resolved
            [OF h1 h2 h3, where ra = "''dec''" and dec = "'' ''"
               and namecol = "PyStr ''target_name''"] q
    by simp
  also have "\<dots> = Inr (Coords [[''CX Tau'', ''67.910''], [''Fomalhaut'', ''67.910''],
                    [''HL Tauri'', ''67.910''], [''M 8'', ''67.910''], [''HD 12345'', ''67.910'']])"
    by code_simp
  finally have b: "fst (load_targets_from_file notebook_storage (PyStr ''targets.csv'') (PyStr ''coord'')
          (PyStr ''target_name'') (PyStr ''dec'') (PyStr '' ''))
        = Inr (Coords [[''CX Tau'', ''67.910''], [''Fomalhaut'', ''67.910''],
                    [''HL Tauri'', ''67.910''], [''M 8'', ''67.910''], [''HD 12345'', ''67.910'']])" .
  from a b show ?thesis by simp
qed

text \<open>
  Claim C2 as stated fails: with the RA override \<^verbatim>\<open>dec\<close> and an empty Dec override the
  first components are those of the first column \<^verbatim>\<open>id\<close>, not of the column \<^verbatim>\<open>dec\<close>.
\<close>

theorem coord_columns_counterexample:
  "fst (load_targets_from_file
          \<lparr>contents = [(''targets.csv'',
                        Inr \<lparr>columns = [''id'', ''ra'', ''dec''],
                             rows = [[''1'', ''67.9'', ''18.2''], [''2'', ''83.6'', ''22.0'']]\<rparr>)],
           opened = []\<rparr>
          (PyStr ''targets.csv'') (PyStr ''coord'') (PyStr ''target_name'') (PyStr ''dec'') (PyStr ''''))
     = Inr (Coords [[''1'', ''67.9''], [''2'', ''83.6'']])"
  by code_simp

text \<open>
  Claim C3. For a readable \<^verbatim>\<open>.csv\<close> file, an override of the requested mode that is
  non-empty after normalisation and is not among the normalised header names makes the
  loader fail with the assertion error that names this column: the name override in name
  mode, the RA override in coordinate mode, and the Dec override in coordinate mode when
  the RA override has passed. The error is fixed by the header alone: the rows \<open>rs\<close> of the
  table are arbitrary and do not occur in the result, and the result is an error, not a
  partial list.
\<close>

theorem missing_override_fails:
  assumes "endswith fname ''.csv''"
    and "map_of (contents fs) fname = Some (Inr \<lparr>columns = cs, rows = rs\<rparr>)"
  shows "(normalize namecol \<noteq> [] \<and> normalize namecol \<notin> set (map normalize cs) \<longrightarrow>
            load_targets_from_file fs (PyStr fname) (PyStr ''name'') (PyStr namecol) racol deccol
              = (Inl (missing_column (normalize namecol)), fs\<lparr>opened := opened fs @ [fname]\<rparr>))
       \<and> (normalize ra \<noteq> [] \<and> normalize ra \<notin> set (map normalize cs) \<longrightarrow>
            load_targets_from_file fs (PyStr fname) (PyStr ''coord'') namecol' (PyStr ra) (PyStr dec)
              = (Inl (missing_column (normalize ra)), fs\<lparr>opened := opened fs @ [fname]\<rparr>))
       \<and> (normalize dec \<noteq> [] \<and> normalize dec \<notin> set (map normalize cs)
            \<and> (normalize ra = [] \<or> normalize ra \<in> set (map normalize cs)) \<longrightarrow>
            load_targets_from_file fs (PyStr fname) (PyStr ''coord'') namecol' (PyStr ra) (PyStr dec)
              = (Inl (missing_column (normalize dec)), fs\<lparr>opened := opened fs @ [fname]\<rparr>))"
  using assms
  by (simp add: load_name_table load_coord_table load_names_missing load_coords_missing_ra
        load_coords_missing_dec renamed_fields)

theorem missing_override_fails_witness:
  "fst (load_targets_from_file notebook_storage (PyStr ''targets.csv'') (PyStr ''name'')
          (PyStr '' Name '') (PyStr ''ra'') (PyStr ''dec''))
     = Inl (AssertionError ''csv file does not contain column name'')
   \<and> fst (load_targets_from_file notebook_storage (PyStr ''targets.csv'') (PyStr ''coord'')
            (PyStr ''target_name'') (PyStr ''RA'') (PyStr ''Declination''))
     = Inl (AssertionError ''csv file does not contain column declination'')
   \<and> fst (load_targets_from_file notebook_storage (PyStr ''targets.csv'') (PyStr ''coord'')
            (PyStr ''target_name'') (PyStr ''Alpha'') (PyStr ''dec''))
     = Inl (AssertionError ''csv file does not contain column alpha'')"
proof -
  have h1: "endswith ''targets.csv'' ''.csv''" by code_simp
  have h2: "map_of (contents notebook_storage) ''targets.csv''
              = Some (Inr \<lparr>columns = columns targets_csv, rows = rows targets_csv\<rparr>)"
    by (simp add: notebook_storage_def)
  note miss = missing_override_fails
                [OF h1 h2, where namecol = "'' Name ''" and ra = "''RA''" and dec = "''Declination''"
                   and racol = "PyStr ''ra''" and deccol = "PyStr ''dec''"
                   and namecol' = "PyStr ''target_name''"]
  have p1: "normalize '' Name '' \<noteq> []
            \<and> normalize '' Name '' \<notin> set (map normalize (columns targets_csv))"
    by code_simp
  have p2: "normalize ''Declination'' \<noteq> []
            \<and> normalize ''Declination'' \<notin> set (map normalize (columns targets_csv))
            \<and> (normalize ''RA'' = [] \<or> normalize ''RA'' \<in> set (map normalize (columns targets_csv)))"
    by code_simp
  have "fst (load_targets_from_file notebook_storage (PyStr ''targets.csv'') (PyStr ''name'')
          (PyStr '' Name '') (PyStr ''ra'') (PyStr ''dec''))
        = Inl (missing_column (normalize '' Name ''))"
    using miss p1 by simp
  also have "\<dots> = Inl (AssertionError ''csv file does not contain column name'')"
    by code_simp
  finally have a: "fst (load_targets_from_file notebook_storage (PyStr ''targets.csv'') (PyStr ''name'')
          (PyStr '' Name '') (PyStr ''ra'') (PyStr ''dec''))
        = Inl (AssertionError ''csv file does not contain column name'')" .
  have "fst (load_targets_from_file notebook_storage (PyStr ''targets.csv'') (PyStr ''coord'')
            (PyStr ''target_name'') (PyStr ''RA'') (PyStr ''Declination''))
        = Inl (missing_column (normalize ''Declination''))"
    using miss p2 by simp
  also have "\<dots> = Inl (AssertionError ''csv file does not contain column declination'')"
    by code_simp
  finally have b: "fst (load_targets_from_file notebook_storage (PyStr ''targets.csv'') (PyStr ''coord'')
            (PyStr ''target_name'') (PyStr ''RA'') (PyStr ''Declination''))
        = Inl (AssertionError ''csv file does not contain column declination'')" .
  have p3: "normalize ''Alpha'' \<noteq> []
            \<and> normalize ''Alpha'' \<notin> set (map normalize (columns targets_csv))"
    by code_simp
  have "fst (load_targets_from_file notebook_storage (PyStr ''targets.csv'') (PyStr ''coord'')
            (PyStr ''target_name'') (PyStr ''Alpha'') (PyStr ''dec''))
        = Inl (missing_column (normalize ''Alpha''))"
    using missing_override_fails
            [OF h1 h2, where ra = "''Alpha''" and dec = "''dec''"
               and namecol' = "PyStr ''target_name''"] p3
    by simp
  also have "\<dots> = Inl (AssertionError ''csv file does not contain column alpha'')"
    by code_simp
  finally have c: "fst (load_targets_from_file notebook_storage (PyStr ''targets.csv'') (PyStr ''coord'')
            (PyStr ''target_name'') (PyStr ''Alpha'') (PyStr ''dec''))
        = Inl (AssertionError ''csv file does not contain column alpha'')" .
  from a b c show ?thesis by simp
qed

text \<open>
  Claim C4. In name mode every valid CSV file should give a list with one entry per data
  row, in file order. The loader does so whenever the selected label is carried by exactly
  one column of the normalised header (\<open>names_of_unique_label\<close>,
  \<open>names_of_first_column\<close>). It does not on the file below: the header names
  \<^verbatim>\<open>Name\<close> and \<^verbatim>\<open> name\<close> are different in the file and become the same label
  \<^verbatim>\<open>name\<close> once the header is trimmed and lower-cased. Then \<^verbatim>\<open>df['name']\<close> is a table
  of two columns, which has no \<^verbatim>\<open>to_list\<close>, and the call raises \<^verbatim>\<open>AttributeError\<close>
  instead of returning the two names, with the override \<^verbatim>\<open>name\<close> as with an empty
  override.
\<close>

theorem names_header_collision:
  "fst (load_targets_from_file
          \<lparr>contents = [(''targets.csv'',
                        Inr \<lparr>columns = [''Name'', '' name'', ''x''],
                             rows = [[''M 8'', ''NGC 6523'', ''1''],
                                     [''CX Tau'', ''CX Tauri'', ''2'']]\<rparr>)],
           opened = []\<rparr>
          (PyStr ''targets.csv'') (PyStr ''name'') (PyStr ''name'') (PyStr ''ra'') (PyStr ''dec''))
     = Inl (AttributeError ''to_list'')
   \<and> fst (load_targets_from_file
          \<lparr>contents = [(''targets.csv'',
                        Inr \<lparr>columns = [''Name'', '' name'', ''x''],
                             rows = [[''M 8'', ''NGC 6523'', ''1''],
                                     [''CX Tau'', ''CX Tauri'', ''2'']]\<rparr>)],
           opened = []\<rparr>
          (PyStr ''targets.csv'') (PyStr ''name'') (PyStr '''') (PyStr ''ra'') (PyStr ''dec''))
     = Inl (AttributeError ''to_list'')"
  by code_simp

text \<open>
  Claim C7. Column matching is insensitive to letter case and surrounding white space on
  both sides. Take two tables with the same rows whose header names differ, column by
  column, only in case and surrounding white space, and three overrides that differ only
  in that way: the loader returns the same result for both, in either mode.
\<close>

theorem column_matching_insensitive:
  assumes "case_ws_variant namecol namecol'"
    and "case_ws_variant racol racol'"
    and "case_ws_variant deccol deccol'"
    and "list_all2 case_ws_variant (columns df) (columns df')"
    and "rows df = rows df'"
    and "map_of (contents fs) fname = Some (Inr df)"
    and "map_of (contents fs') fname = Some (Inr df')"
  shows "fst (load_targets_from_file fs (PyStr fname) load_by
                (PyStr namecol) (PyStr racol) (PyStr deccol))
       = fst (load_targets_from_file fs' (PyStr fname) load_by
                (PyStr namecol') (PyStr racol') (PyStr deccol'))"
proof -
  have n: "normalize namecol = normalize namecol'" using assms(1) by (rule variant_normalize)
  have r: "normalize racol = normalize racol'" using assms(2) by (rule variant_normalize)
  have d: "normalize deccol = normalize deccol'" using assms(3) by (rule variant_normalize)
  have "map normalize (columns df) = map normalize (columns df')"
    using assms(4) by (rule variants_normalize)
  with assms(5) have t: "rename_columns normalize df = rename_columns normalize df'"
    by (simp add: rename_columns_def)
  have names: "load_names (rename_columns normalize df) (PyStr namecol)
                 = load_names (rename_columns normalize df') (PyStr namecol')"
    by (simp add: load_names_def n t)
  have coords: "load_coords (rename_columns normalize df) (PyStr racol) (PyStr deccol)
                 = load_coords (rename_columns normalize df') (PyStr racol') (PyStr deccol')"
    by (simp add: load_coords_def r d t)
  show ?thesis
    by (simp add: load_targets_from_file_def read_csv_def assms(6,7) Let_def names coords
          del: set_simps)
qed

theorem column_matching_insensitive_witness:
  "fst (load_targets_from_file notebook_storage (PyStr ''targets.csv'') (PyStr ''coord'')
          (PyStr '' Target_Name '') (PyStr ''RA'') (PyStr ''dec''))
     = fst (load_targets_from_file recased_storage (PyStr ''targets.csv'') (PyStr ''coord'')
          (PyStr ''target_name'') (PyStr ''ra'') (PyStr ''Dec''))"
proof -
  have sp: "list_all isspace '' ''" and nil: "list_all isspace ''''" by code_simp+
  have l1: "list_all2 (\<lambda>c d. lower_char c = lower_char d) ''Target_Name'' ''target_name''"
    by code_simp
  have l2: "list_all2 (\<lambda>c d. lower_char c = lower_char d) ''RA'' ''ra''" by code_simp
  have l3: "list_all2 (\<lambda>c d. lower_char c = lower_char d) ''dec'' ''Dec''" by code_simp
  have l4: "list_all2 (\<lambda>c d. lower_char c = lower_char d) ''target_name'' ''Target_Name''"
    by code_simp
  have l5: "list_all2 (\<lambda>c d. lower_char c = lower_char d) ''DEC'' ''Dec''" by code_simp
  have v1: "case_ws_variant '' Target_Name '' ''target_name''"
    using case_ws_variant.pad [OF sp sp case_ws_variant.recase [OF l1]] by simp
  have v2: "case_ws_variant ''RA'' ''ra''" using l2 by (rule case_ws_variant.recase)
  have v3: "case_ws_variant ''dec'' ''Dec''" using l3 by (rule case_ws_variant.recase)
  have c1: "case_ws_variant ''target_name'' ''Target_Name''"
    using l4 by (rule case_ws_variant.recase)
  have c2: "case_ws_variant '' RA'' ''ra''"
    using case_ws_variant.pad [OF sp nil v2] by simp
  have "case_ws_variant ''Dec'' '' DEC''"
    using case_ws_variant.sym [OF case_ws_variant.pad [OF sp nil case_ws_variant.recase [OF l5]]]
    by simp
  then have "case_ws_variant '' Dec'' '' DEC''"
    using case_ws_variant.pad [OF sp nil, of "''Dec''" "'' DEC''"] by simp
  then have c3: "case_ws_variant '' DEC'' '' Dec''" by (rule case_ws_variant.sym)
  have h4: "list_all2 case_ws_variant (columns targets_csv)
              (columns (targets_csv\<lparr>columns := [''Target_Name'', ''ra'', '' Dec'']\<rparr>))"
    using c1 c2 c3 by (simp add: targets_csv_def)
  have h5: "rows targets_csv = rows (targets_csv\<lparr>columns := [''Target_Name'', ''ra'', '' Dec'']\<rparr>)"
    by simp
  have h6: "map_of (contents notebook_storage) ''targets.csv'' = Some (Inr targets_csv)"
    by (simp add: notebook_storage_def)
  have h7: "map_of (contents recased_storage) ''targets.csv''
              = Some (Inr (targets_csv\<lparr>columns := [''Target_Name'', ''ra'', '' Dec'']\<rparr>))"
    by (simp add: recased_storage_def)
  show ?thesis
    by (rule column_matching_insensitive [OF v1 v2 v3 h4 h5 h6 h7])
qed

subsection \<open>The target-count dictionary\<close>

text \<open>
  Claim C8. The dictionary built from a sequence of target identifiers has one entry per
  distinct identifier, and its keys stand in the order in which the identifiers first
  occur in the sequence (\<open>remdups\<close> keeps the last occurrences, hence the two reversals).
  The counting loop stores the archive's answer under each key and leaves the keys and
  their order as they are.
\<close>

theorem target_count_keys:
  "map fst (targets_init names) = rev (remdups (rev names))
   \<and> distinct (map fst (targets_init names))
   \<and> set (map fst (targets_init names)) = set names
   \<and> length (targets_init names) = card (set names)
   \<and> count_targets (\<lambda>t. Inr (count t)) names
       = Inr (map (\<lambda>t. (t, count t)) (rev (remdups (rev names))))"
proof -
  let ?ks = "rev (remdups (rev names))"
  have keys: "map fst (targets_init names) = ?ks" by (rule keys_targets_init)
  have dist: "distinct (map fst (targets_init names))" by (simp add: keys)
  have len: "length (targets_init names) = card (set names)"
  proof -
    have "length (targets_init names) = length (map fst (targets_init names))" by simp
    also have "\<dots> = length (remdups (rev names))" by (simp only: keys length_rev)
    also have "\<dots> = card (set names)" by (simp add: length_remdups_card_conv)
    finally show ?thesis .
  qed
  have "count_loop (\<lambda>t. Inr (count t)) (map fst (targets_init names)) (targets_init names)
          = Inr (map (\<lambda>(k, v). (k, if k \<in> set (map fst (targets_init names)) then count k else v))
                   (targets_init names))"
    using dist by (intro count_loop_total) simp_all
  also have "map (\<lambda>(k, v). (k, if k \<in> set (map fst (targets_init names)) then count k else v))
                   (targets_init names)
               = map (\<lambda>t. (t, count t)) (map fst (targets_init names))"
    by (auto simp add: rev_image_eqI)
  finally have "count_targets (\<lambda>t. Inr (count t)) names = Inr (map (\<lambda>t. (t, count t)) ?ks)"
    by (simp add: count_targets_def Let_def keys)
  with keys dist len show ?thesis by simp
qed

theorem target_count_keys_witness:
  "map fst (targets_init [''CX Tau'', ''M 8'', ''CX Tau'', ''HL Tauri'', ''M 8''])
     = [''CX Tau'', ''M 8'', ''HL Tauri'']"
  using target_count_keys [of "[''CX Tau'', ''M 8'', ''CX Tau'', ''HL Tauri'', ''M 8'']"]
  by simp

end
